theory Spec2Isabelle
  imports Complex_Main "HOL-Library.Multiset" "HOL-Library.Word"
begin

section \<open>Values\<close>

text \<open>
  \<^verbatim>\<open>using Value = double\<close> with the distinguished \<^verbatim>\<open>NaN\<close> of common.hpp. A value is
  either the not-a-number sentinel or a finite number; finite numbers are exact reals, so
  rounding and the infinities of IEEE-754 are outside the model. Arithmetic with a NaN
  operand gives NaN and every comparison with a NaN operand is false, as in C++.
\<close>

datatype Value = NaN | Fin real

fun vadd :: "Value \<Rightarrow> Value \<Rightarrow> Value" where
  "vadd (Fin a) (Fin b) = Fin (a + b)"
| "vadd _ _ = NaN"

fun vsub :: "Value \<Rightarrow> Value \<Rightarrow> Value" where
  "vsub (Fin a) (Fin b) = Fin (a - b)"
| "vsub _ _ = NaN"

fun vmul :: "Value \<Rightarrow> Value \<Rightarrow> Value" where
  "vmul (Fin a) (Fin b) = Fin (a * b)"
| "vmul _ _ = NaN"

text \<open>Only \<open>0 / 0\<close> is NaN in C++; a nonzero dividend over zero is infinite there and
  has no counterpart here, where the quotient is NaN as well. In the code modelled below this
  case arises only in \<^verbatim>\<open>RSI\<close> with period 0.\<close>

fun vdiv :: "Value \<Rightarrow> Value \<Rightarrow> Value" where
  "vdiv (Fin a) (Fin b) = (if b = 0 then NaN else Fin (a / b))"
| "vdiv _ _ = NaN"

fun vneg :: "Value \<Rightarrow> Value" where
  "vneg (Fin a) = Fin (- a)"
| "vneg NaN = NaN"

fun vlt :: "Value \<Rightarrow> Value \<Rightarrow> bool" where
  "vlt (Fin a) (Fin b) = (a < b)"
| "vlt _ _ = False"

fun vgt :: "Value \<Rightarrow> Value \<Rightarrow> bool" where
  "vgt (Fin a) (Fin b) = (a > b)"
| "vgt _ _ = False"

fun veq :: "Value \<Rightarrow> Value \<Rightarrow> bool" where
  "veq (Fin a) (Fin b) = (a = b)"
| "veq _ _ = False"

datatype error = OutOfRange | UndefinedBehaviour | RuntimeError | BadVariantAccess

section \<open>Line buffer storage (linebuffer.hpp)\<close>

subsection \<open>UnboundedStorage\<close>

record UnboundedStorage =
  data_u :: "Value list"
  pos_u :: int

definition UnboundedStorage_new :: UnboundedStorage where
  "UnboundedStorage_new = \<lparr>data_u = [], pos_u = 0\<rparr>"

definition push_back_u :: "UnboundedStorage \<Rightarrow> Value \<Rightarrow> UnboundedStorage" where
  "push_back_u s v = s\<lparr>data_u := data_u s @ [v]\<rparr>"

text \<open>\<^verbatim>\<open>Value& at(Index idx)\<close>: the mutable access path; out of range it throws
  \<^verbatim>\<open>std::out_of_range\<close>.\<close>

definition at_mut_u :: "UnboundedStorage \<Rightarrow> int \<Rightarrow> error + Value" where
  "at_mut_u s idx =
     (let actual = pos_u s - idx in
      if actual < 0 \<or> actual \<ge> int (length (data_u s)) then Inl OutOfRange
      else Inr (data_u s ! nat actual))"

text \<open>\<^verbatim>\<open>Value at(Index idx) const\<close>: the const access path; out of range it returns NaN.\<close>

definition at_const_u :: "UnboundedStorage \<Rightarrow> int \<Rightarrow> Value" where
  "at_const_u s idx =
     (let actual = pos_u s - idx in
      if actual < 0 \<or> actual \<ge> int (length (data_u s)) then NaN
      else data_u s ! nat actual)"

definition size_u :: "UnboundedStorage \<Rightarrow> nat" where
  "size_u s = length (data_u s)"

definition length_u :: "UnboundedStorage \<Rightarrow> nat" where
  "length_u s = length (data_u s)"

definition advance_u :: "UnboundedStorage \<Rightarrow> UnboundedStorage" where
  "advance_u s = (if pos_u s < int (length (data_u s)) - 1 then s\<lparr>pos_u := pos_u s + 1\<rparr> else s)"

definition rewind_u :: "UnboundedStorage \<Rightarrow> UnboundedStorage" where
  "rewind_u s = (if pos_u s > 0 then s\<lparr>pos_u := pos_u s - 1\<rparr> else s)"

definition home_u :: "UnboundedStorage \<Rightarrow> UnboundedStorage" where
  "home_u s = s\<lparr>pos_u := 0\<rparr>"

subsection \<open>QBufferStorage\<close>

record QBufferStorage =
  data_q :: "Value list"
  maxlen_q :: nat
  pos_q :: int
  total_pushed_q :: nat

definition QBufferStorage_new :: "nat \<Rightarrow> QBufferStorage" where
  "QBufferStorage_new maxlen = \<lparr>data_q = [], maxlen_q = maxlen, pos_q = 0, total_pushed_q = 0\<rparr>"

text \<open>\<^verbatim>\<open>push_back\<close> pops the front when the deque already holds \<^verbatim>\<open>maxlen_\<close> values.
  \<^verbatim>\<open>pop_front\<close> on an empty deque (only possible with \<^verbatim>\<open>maxlen_ = 0\<close>) is undefined
  behaviour in C++ and an error here.\<close>

definition push_back_q :: "QBufferStorage \<Rightarrow> Value \<Rightarrow> error + QBufferStorage" where
  "push_back_q s v =
     (if length (data_q s) \<ge> maxlen_q s then
        (case data_q s of
           [] \<Rightarrow> Inl UndefinedBehaviour
         | _ # rest \<Rightarrow> Inr (s\<lparr>data_q := rest @ [v], total_pushed_q := total_pushed_q s + 1\<rparr>))
      else Inr (s\<lparr>data_q := data_q s @ [v], total_pushed_q := total_pushed_q s + 1\<rparr>))"

definition at_mut_q :: "QBufferStorage \<Rightarrow> int \<Rightarrow> error + Value" where
  "at_mut_q s idx =
     (let actual = int (length (data_q s)) - 1 - idx in
      if actual < 0 \<or> actual \<ge> int (length (data_q s)) then Inl OutOfRange
      else Inr (data_q s ! nat actual))"

definition at_const_q :: "QBufferStorage \<Rightarrow> int \<Rightarrow> Value" where
  "at_const_q s idx =
     (let actual = int (length (data_q s)) - 1 - idx in
      if actual < 0 \<or> actual \<ge> int (length (data_q s)) then NaN
      else data_q s ! nat actual)"

definition size_q :: "QBufferStorage \<Rightarrow> nat" where
  "size_q s = length (data_q s)"

definition length_q :: "QBufferStorage \<Rightarrow> nat" where
  "length_q s = total_pushed_q s"

definition advance_q :: "QBufferStorage \<Rightarrow> QBufferStorage" where
  "advance_q s = s\<lparr>pos_q := pos_q s + 1\<rparr>"

definition rewind_q :: "QBufferStorage \<Rightarrow> QBufferStorage" where
  "rewind_q s = (if pos_q s > 0 then s\<lparr>pos_q := pos_q s - 1\<rparr> else s)"

definition home_q :: "QBufferStorage \<Rightarrow> QBufferStorage" where
  "home_q s = s\<lparr>pos_q := 0\<rparr>"

subsection \<open>IBufferStorage: dispatch over the two storage classes\<close>

datatype Storage = Unbounded UnboundedStorage | QBuffer QBufferStorage

fun push_back :: "Storage \<Rightarrow> Value \<Rightarrow> error + Storage" where
  "push_back (Unbounded s) v = Inr (Unbounded (push_back_u s v))"
| "push_back (QBuffer s) v = map_sum id QBuffer (push_back_q s v)"

fun at_mut :: "Storage \<Rightarrow> int \<Rightarrow> error + Value" where
  "at_mut (Unbounded s) idx = at_mut_u s idx"
| "at_mut (QBuffer s) idx = at_mut_q s idx"

fun at_const :: "Storage \<Rightarrow> int \<Rightarrow> Value" where
  "at_const (Unbounded s) idx = at_const_u s idx"
| "at_const (QBuffer s) idx = at_const_q s idx"

fun size_s :: "Storage \<Rightarrow> nat" where
  "size_s (Unbounded s) = size_u s"
| "size_s (QBuffer s) = size_q s"

fun length_s :: "Storage \<Rightarrow> nat" where
  "length_s (Unbounded s) = length_u s"
| "length_s (QBuffer s) = length_q s"

fun position :: "Storage \<Rightarrow> int" where
  "position (Unbounded s) = pos_u s"
| "position (QBuffer s) = pos_q s"

fun stored :: "Storage \<Rightarrow> Value list" where
  "stored (Unbounded s) = data_u s"
| "stored (QBuffer s) = data_q s"

fun advance :: "Storage \<Rightarrow> Storage" where
  "advance (Unbounded s) = Unbounded (advance_u s)"
| "advance (QBuffer s) = QBuffer (advance_q s)"

fun rewind :: "Storage \<Rightarrow> Storage" where
  "rewind (Unbounded s) = Unbounded (rewind_u s)"
| "rewind (QBuffer s) = QBuffer (rewind_q s)"

fun home :: "Storage \<Rightarrow> Storage" where
  "home (Unbounded s) = Unbounded (home_u s)"
| "home (QBuffer s) = QBuffer (home_q s)"

text \<open>\<^verbatim>\<open>LineBuffer::extend\<close>: one \<^verbatim>\<open>push_back\<close> per value, in order.\<close>

fun extend_s :: "Storage \<Rightarrow> Value list \<Rightarrow> error + Storage" where
  "extend_s s [] = Inr s"
| "extend_s s (v # vs) = (case push_back s v of Inl e \<Rightarrow> Inl e | Inr s' \<Rightarrow> extend_s s' vs)"

text \<open>A cursor move is one of the three calls that only change \<^verbatim>\<open>pos_\<close>.\<close>

datatype move = Advance | Rewind | Home

fun apply_move :: "move \<Rightarrow> Storage \<Rightarrow> Storage" where
  "apply_move Advance s = advance s"
| "apply_move Rewind s = rewind s"
| "apply_move Home s = home s"

definition apply_moves :: "move list \<Rightarrow> Storage \<Rightarrow> Storage" where
  "apply_moves ms s = fold apply_move ms s"

subsection \<open>LineBuffer\<close>

text \<open>The position a read at offset \<open>idx\<close> refers to (\<^verbatim>\<open>actual\<close> in both \<^verbatim>\<open>at\<close> overloads of
  a storage class): counted from the cursor in an unbounded storage, from the tail in a ring.\<close>

fun read_position :: "Storage \<Rightarrow> int \<Rightarrow> int" where
  "read_position (Unbounded s) idx = pos_u s - idx"
| "read_position (QBuffer s) idx = int (length (data_q s)) - 1 - idx"

text \<open>A \<^verbatim>\<open>LineBuffer\<close> owns its storage through \<^verbatim>\<open>std::unique_ptr<IBufferStorage> storage_\<close>
  and carries \<^verbatim>\<open>minperiod_\<close>.\<close>

record LineBuffer =
  lb_storage :: Storage
  lb_minperiod :: nat

definition LineBuffer_new :: LineBuffer where
  "LineBuffer_new = \<lparr>lb_storage = Unbounded UnboundedStorage_new, lb_minperiod = 1\<rparr>"

definition LineBuffer_qbuffer :: "nat \<Rightarrow> LineBuffer" where
  "LineBuffer_qbuffer qbuffer = \<lparr>lb_storage = QBuffer (QBufferStorage_new qbuffer), lb_minperiod = 1\<rparr>"

text \<open>\<^verbatim>\<open>Value& operator[](Index idx)\<close> returns \<^verbatim>\<open>storage_->at(idx)\<close>.\<close>

definition op_index :: "LineBuffer \<Rightarrow> int \<Rightarrow> error + Value" where
  "op_index lb idx = at_mut (lb_storage lb) idx"

text \<open>\<^verbatim>\<open>Value operator[](Index idx) const\<close> has the same body. In a const member function
  \<^verbatim>\<open>storage_\<close> is a const \<^verbatim>\<open>unique_ptr\<close>, whose \<^verbatim>\<open>operator->\<close> still yields an
  \<^verbatim>\<open>IBufferStorage*\<close> to a non-const object; overload resolution therefore selects
  \<^verbatim>\<open>Value& at(Index)\<close> here as well, and the result is copied.\<close>

definition op_index_const :: "LineBuffer \<Rightarrow> int \<Rightarrow> error + Value" where
  "op_index_const lb idx = at_mut (lb_storage lb) idx"


section \<open>Vectorised kernels (simd.hpp)\<close>

text \<open>
  A kernel receives \<^verbatim>\<open>const double* data\<close>, \<^verbatim>\<open>double* result\<close> and \<^verbatim>\<open>Size dataLen\<close>.
  The arrays are lists here; the result array is passed in with the contents it has on entry
  and handed back with the slots the kernel wrote. Both arrays hold at least \<open>dataLen\<close>
  values in every call of the source.
\<close>

text \<open>\<^verbatim>\<open>sumScalar\<close>, the reference implementation of \<^verbatim>\<open>sum\<close>.\<close>

definition sum_v :: "Value list \<Rightarrow> nat \<Rightarrow> Value" where
  "sum_v data cnt = fold (\<lambda>i r. vadd r (data ! i)) [0..<cnt] (Fin 0)"

definition mean_v :: "Value list \<Rightarrow> nat \<Rightarrow> Value" where
  "mean_v data cnt = (if cnt = 0 then NaN else vdiv (sum_v data cnt) (Fin (real cnt)))"

definition slidingSum :: "Value list \<Rightarrow> Value list \<Rightarrow> nat \<Rightarrow> nat \<Rightarrow> Value list" where
  "slidingSum data result dataLen window =
     (if dataLen = 0 \<or> window = 0 then result
      else
        let r1 = fold (\<lambda>i r. r[i := NaN]) [0..<min (window - 1) dataLen] result in
        if dataLen < window then r1
        else
          let windowSum = sum_v data window;
              r2 = r1[window - 1 := windowSum]
          in snd (fold (\<lambda>i (ws, r).
                     let ws' = vadd (vsub ws (data ! (i - window))) (data ! i)
                     in (ws', r[i := ws']))
                   [window..<dataLen] (windowSum, r2)))"

text \<open>With \<^verbatim>\<open>window = 0\<close> the unsigned \<^verbatim>\<open>window - 1\<close> wraps to the largest \<^verbatim>\<open>Size\<close>
  and the division loop does not run.\<close>

definition slidingMean :: "Value list \<Rightarrow> Value list \<Rightarrow> nat \<Rightarrow> nat \<Rightarrow> Value list" where
  "slidingMean data result dataLen window =
     (let r = slidingSum data result dataLen window;
          divisor = Fin (real window)
      in if window = 0 then r
         else fold (\<lambda>i r. r[i := vdiv (r ! i) divisor]) [window - 1..<dataLen] r)"

definition ema :: "Value list \<Rightarrow> Value list \<Rightarrow> nat \<Rightarrow> nat \<Rightarrow> Value list" where
  "ema data result dataLen period =
     (if dataLen = 0 \<or> period = 0 then result
      else
        let alpha = Fin (2 / (real period + 1));
            r1 = fold (\<lambda>i r. r[i := NaN]) [0..<min (period - 1) dataLen] result in
        if dataLen < period then r1
        else
          let r2 = r1[period - 1 := vdiv (sum_v data period) (Fin (real period))];
              oneMinusAlpha = vsub (Fin 1) alpha
          in fold (\<lambda>i r. r[i := vadd (vmul alpha (data ! i)) (vmul oneMinusAlpha (r ! (i - 1)))])
               [period..<dataLen] r2)"

text \<open>The local vectors \<^verbatim>\<open>changes\<close>, \<^verbatim>\<open>gains\<close>, \<^verbatim>\<open>losses\<close>, \<^verbatim>\<open>avgGain\<close> and
  \<^verbatim>\<open>avgLoss\<close> of \<^verbatim>\<open>rsi\<close> have \<open>dataLen - 1\<close> slots; \<^verbatim>\<open>std::vector\<close> fills them with zeros.
  The loop that writes NaN to the first \<open>period\<close> slots does not test \<open>dataLen\<close>: with
  \<open>period > dataLen\<close> the source writes past the array, and the list update here does
  nothing.\<close>

definition rsi_changes :: "Value list \<Rightarrow> nat \<Rightarrow> Value list" where
  "rsi_changes data dataLen = map (\<lambda>i. vsub (data ! (i + 1)) (data ! i)) [0..<dataLen - 1]"

definition rsi_gains :: "Value list \<Rightarrow> Value list" where
  "rsi_gains changes = map (\<lambda>c. if vgt c (Fin 0) then c else Fin 0) changes"

definition rsi_losses :: "Value list \<Rightarrow> Value list" where
  "rsi_losses changes = map (\<lambda>c. if vlt c (Fin 0) then vneg c else Fin 0) changes"

definition rsi_value :: "Value \<Rightarrow> Value \<Rightarrow> Value" where
  "rsi_value ag al =
     (if veq al (Fin 0) then Fin 100
      else if veq ag (Fin 0) then Fin 0
      else let rs = vdiv ag al in vsub (Fin 100) (vdiv (Fin 100) (vadd (Fin 1) rs)))"

definition rsi :: "Value list \<Rightarrow> Value list \<Rightarrow> nat \<Rightarrow> nat \<Rightarrow> Value list" where
  "rsi data result dataLen period =
     (if dataLen < 2 \<or> period = 0 then fold (\<lambda>i r. r[i := NaN]) [0..<dataLen] result
      else
        let changes = rsi_changes data dataLen;
            gains = rsi_gains changes;
            losses = rsi_losses changes;
            avgGain = ema gains (replicate (dataLen - 1) (Fin 0)) (dataLen - 1) period;
            avgLoss = ema losses (replicate (dataLen - 1) (Fin 0)) (dataLen - 1) period;
            r1 = fold (\<lambda>i r. r[i := NaN]) [0..<period] result
        in fold (\<lambda>i r.
                  let idx = i - 1 in
                  if idx < period - 1 then r[i := NaN]
                  else r[i := rsi_value (avgGain ! idx) (avgLoss ! idx)])
             [period..<dataLen] r1)"

section \<open>Indicators (indicator.hpp, indicators/sma.hpp, indicators/rsi.hpp)\<close>

text \<open>
  A \<^verbatim>\<open>LineBuffer\<close> forwards \<^verbatim>\<open>push\<close>, \<^verbatim>\<open>operator[]\<close>, \<^verbatim>\<open>advance\<close> and the other calls
  to its storage, so a line is its \<^typ>\<open>Storage\<close> here. An indicator holds a pointer to its
  input line and owns its output line \<^verbatim>\<open>lines0()\<close>; the functions below take both lines and
  return the output line.

  The indicators below are bound to a single input line (the constructors taking a
  \<^verbatim>\<open>LineBuffer*\<close>). \<^verbatim>\<open>Indicator::dataValue\<close> then evaluates \<^verbatim>\<open>(*singleLine_)[idx]\<close> on a
  \<^verbatim>\<open>LineBuffer*\<close>, which selects the non-const \<^verbatim>\<open>operator[]\<close> and with it the throwing
  \<^verbatim>\<open>at\<close>.
\<close>

definition dataValue :: "Storage \<Rightarrow> int \<Rightarrow> error + Value" where
  "dataValue singleLine idx = at_mut singleLine idx"

text \<open>\<^verbatim>\<open>LineBuffer::rawData\<close>: the vector of an unbounded line, \<^verbatim>\<open>nullptr\<close> for a ring.\<close>

fun rawData :: "Storage \<Rightarrow> Value list option" where
  "rawData (Unbounded s) = Some (data_u s)"
| "rawData (QBuffer s) = None"

text \<open>The summation loop of \<^verbatim>\<open>SMA::next\<close>; an exception of \<^verbatim>\<open>dataValue\<close> leaves it.\<close>

fun SMA_sum :: "Storage \<Rightarrow> nat list \<Rightarrow> Value \<Rightarrow> error + Value" where
  "SMA_sum input [] acc = Inr acc"
| "SMA_sum input (i # is) acc =
     (case dataValue input (int i) of
        Inl e \<Rightarrow> Inl e
      | Inr v \<Rightarrow> SMA_sum input is (vadd acc v))"

definition SMA_next :: "int \<Rightarrow> Storage \<Rightarrow> Storage \<Rightarrow> error + Storage" where
  "SMA_next period input lines0 =
     (case SMA_sum input [0..<nat period] (Fin 0) of
        Inl e \<Rightarrow> Inl e
      | Inr s \<Rightarrow> push_back lines0 (vdiv s (Fin (real_of_int period))))"

text \<open>\<^verbatim>\<open>Indicator::once\<close>, the default: \<^verbatim>\<open>next(); advance();\<close> for every index of
  \<open>[start, end)\<close>, where \<^verbatim>\<open>advance\<close> moves the cursor of the indicator's own line.\<close>

fun Indicator_once :: "(Storage \<Rightarrow> error + Storage) \<Rightarrow> Storage \<Rightarrow> nat list \<Rightarrow> error + Storage" where
  "Indicator_once nxt lines0 [] = Inr lines0"
| "Indicator_once nxt lines0 (i # is) =
     (case nxt lines0 of
        Inl e \<Rightarrow> Inl e
      | Inr l \<Rightarrow> Indicator_once nxt (advance l) is)"

text \<open>\<^verbatim>\<open>SMA::once\<close>. \<^verbatim>\<open>static_cast<Size>(period)\<close> of a negative period is larger than any
  length, so the function returns early; with period 0 the kernel and the push loop do
  nothing. The push loop stores \<^verbatim>\<open>tempOutput[period - 1 .. len - 1]\<close> only.\<close>

definition SMA_once :: "int \<Rightarrow> Storage \<Rightarrow> Storage \<Rightarrow> nat \<Rightarrow> nat \<Rightarrow> error + Storage" where
  "SMA_once period input lines0 start end =
     (case rawData input of
        None \<Rightarrow> Indicator_once (SMA_next period input) lines0 [start..<end]
      | Some rawInput \<Rightarrow>
          if rawInput = [] then Indicator_once (SMA_next period input) lines0 [start..<end]
          else
            let len = length rawInput in
            if period < 0 \<or> len < nat period then Inr lines0
            else if period = 0 then Inr lines0
            else
              let tempOutput = slidingMean rawInput (replicate len (Fin 0)) len (nat period)
              in extend_s lines0 (map (\<lambda>i. tempOutput ! i) [nat period - 1..<len]))"

text \<open>Event-driven use of an indicator, as the tests drive it: the data cursor stands on a
  bar, \<^verbatim>\<open>next()\<close> is called, the data cursor advances to the following bar; \<open>n\<close> times.\<close>

fun SMA_run_next :: "int \<Rightarrow> Storage \<Rightarrow> Storage \<Rightarrow> nat \<Rightarrow> error + Storage" where
  "SMA_run_next period input lines0 0 = Inr lines0"
| "SMA_run_next period input lines0 (Suc n) =
     (case SMA_next period input lines0 of
        Inl e \<Rightarrow> Inl e
      | Inr l \<Rightarrow> SMA_run_next period (advance input) l n)"

text \<open>\<^verbatim>\<open>RSI\<close>: the members written by \<^verbatim>\<open>init\<close> and \<^verbatim>\<open>next\<close>. In \<^verbatim>\<open>next\<close> the bar count
  is compared with \<^verbatim>\<open>static_cast<Size>(period)\<close>, which no count reaches when the period is
  negative.\<close>

record RSI_state =
  rsi_alpha :: Value
  rsi_avgGain :: Value
  rsi_avgLoss :: Value
  rsi_sumGain :: Value
  rsi_sumLoss :: Value
  rsi_initialized :: bool
  rsi_barCount :: nat

text \<open>The member initialisers followed by \<^verbatim>\<open>RSI::init\<close>.\<close>

definition RSI_init :: "int \<Rightarrow> RSI_state" where
  "RSI_init period =
     \<lparr>rsi_alpha = vdiv (Fin 1) (Fin (real_of_int period)), rsi_avgGain = Fin 0, rsi_avgLoss = Fin 0,
      rsi_sumGain = Fin 0, rsi_sumLoss = Fin 0, rsi_initialized = False, rsi_barCount = 0\<rparr>"

definition RSI_next :: "int \<Rightarrow> Storage \<Rightarrow> RSI_state \<times> Storage \<Rightarrow> error + RSI_state \<times> Storage" where
  "RSI_next period input st =
     (case dataValue input 0 of
        Inl e \<Rightarrow> Inl e
      | Inr current \<Rightarrow>
     (case dataValue input 1 of
        Inl e \<Rightarrow> Inl e
      | Inr prev \<Rightarrow>
          let (s, lines0) = st;
              change = vsub current prev;
              gain = (if vgt change (Fin 0) then change else Fin 0);
              loss = (if vlt change (Fin 0) then vneg change else Fin 0);
              s1 = s\<lparr>rsi_barCount := rsi_barCount s + 1\<rparr>;
              finish = (\<lambda>s'.
                 let rsi = (if veq (rsi_avgLoss s') (Fin 0) then Fin 100
                            else let rs = vdiv (rsi_avgGain s') (rsi_avgLoss s')
                                 in vsub (Fin 100) (vdiv (Fin 100) (vadd (Fin 1) rs)))
                 in map_sum id (Pair s') (push_back lines0 rsi))
          in
          if \<not> rsi_initialized s1 then
            let s2 = s1\<lparr>rsi_sumGain := vadd (rsi_sumGain s1) gain, rsi_sumLoss := vadd (rsi_sumLoss s1) loss\<rparr> in
            if 0 \<le> period \<and> rsi_barCount s2 \<ge> nat period then
              finish (s2\<lparr>rsi_avgGain := vdiv (rsi_sumGain s2) (Fin (real_of_int period)),
                         rsi_avgLoss := vdiv (rsi_sumLoss s2) (Fin (real_of_int period)),
                         rsi_initialized := True\<rparr>)
            else map_sum id (Pair s2) (push_back lines0 NaN)
          else
            finish (s1\<lparr>rsi_avgGain := vadd (vmul (rsi_alpha s1) gain) (vmul (vsub (Fin 1) (rsi_alpha s1)) (rsi_avgGain s1)),
                       rsi_avgLoss := vadd (vmul (rsi_alpha s1) loss) (vmul (vsub (Fin 1) (rsi_alpha s1)) (rsi_avgLoss s1))\<rparr>)))"

fun RSI_run_next :: "int \<Rightarrow> Storage \<Rightarrow> RSI_state \<times> Storage \<Rightarrow> nat \<Rightarrow> error + RSI_state \<times> Storage" where
  "RSI_run_next period input st 0 = Inr st"
| "RSI_run_next period input st (Suc n) =
     (case RSI_next period input st of
        Inl e \<Rightarrow> Inl e
      | Inr st' \<Rightarrow> RSI_run_next period (advance input) st' n)"

section \<open>Orders, positions and trades (order.hpp)\<close>

text \<open>Prices, sizes and cash are finite doubles in every call modelled below; they are
  exact reals here.\<close>

datatype OrderType = Market | Close | Limit | Stop | StopLimit | StopTrail | StopTrailLimit | Historical

datatype OrderSide = Buy | Sell

datatype OrderStatus =
  Created | Submitted | Accepted | Partial | Completed | Canceled | Expired | Margin | Rejected

record OrderExecInfo =
  ei_price :: real
  ei_size :: real
  ei_value :: real
  ei_commission :: real
  ei_pnl :: real
  ei_barIndex :: nat

text \<open>The members of \<^verbatim>\<open>Order\<close> that the broker reads and writes.\<close>

record Order =
  o_ref :: nat
  o_side :: OrderSide
  o_type :: OrderType
  o_status :: OrderStatus
  o_size :: real
  o_price :: real
  o_data :: string
  o_execInfo :: OrderExecInfo

definition isBuy :: "Order \<Rightarrow> bool" where
  "isBuy ord = (o_side ord = Buy)"

record Position =
  p_size :: real
  p_price :: real

definition Position_update :: "Position \<Rightarrow> real \<Rightarrow> real \<Rightarrow> Position" where
  "Position_update p deltaSize execPrice =
     (if p_size p = 0 then \<lparr>p_size = deltaSize, p_price = execPrice\<rparr>
      else if (p_size p > 0 \<and> deltaSize > 0) \<or> (p_size p < 0 \<and> deltaSize < 0) then
        let totalValue = p_size p * p_price p + deltaSize * execPrice;
            size' = p_size p + deltaSize
        in \<lparr>p_size = size', p_price = totalValue / size'\<rparr>
      else
        let size' = p_size p + deltaSize in
        if \<bar>size'\<bar> < 1 / 10 ^ 10 then \<lparr>p_size = 0, p_price = 0\<rparr>
        else p\<lparr>p_size := size'\<rparr>)"

record Trade =
  t_ref :: nat
  t_dataName :: string
  t_barOpen :: nat
  t_barClose :: nat
  t_priceOpen :: real
  t_priceClose :: real
  t_price :: real
  t_size :: real
  t_pnl :: real
  t_pnlComm :: real
  t_commission :: real
  t_isLong :: bool
  t_isOpen :: bool

text \<open>A default-constructed \<^verbatim>\<open>Trade\<close>.\<close>

definition Trade_new :: Trade where
  "Trade_new = \<lparr>t_ref = 0, t_dataName = [], t_barOpen = 0, t_barClose = 0, t_priceOpen = 0,
     t_priceClose = 0, t_price = 0, t_size = 0, t_pnl = 0, t_pnlComm = 0, t_commission = 0,
     t_isLong = True, t_isOpen = True\<rparr>"

definition Trade_close :: "Trade \<Rightarrow> nat \<Rightarrow> real \<Rightarrow> real \<Rightarrow> Trade" where
  "Trade_close t bar closePrice comm =
     (let t1 = t\<lparr>t_barClose := bar, t_priceClose := closePrice,
                  t_commission := t_commission t + comm, t_isOpen := False\<rparr>;
          t2 = (if t_isLong t1
                then t1\<lparr>t_pnl := (t_priceClose t1 - t_priceOpen t1) * \<bar>t_size t1\<bar>\<rparr>
                else t1\<lparr>t_pnl := (t_priceOpen t1 - t_priceClose t1) * \<bar>t_size t1\<bar>\<rparr>)
      in t2\<lparr>t_pnlComm := t_pnl t2 - t_commission t2\<rparr>)"

section \<open>Commission (comminfo.hpp)\<close>

datatype CommType = Percentage | Fixed | PerTrade

record CommInfo =
  ci_commission :: real
  ci_mult :: real
  ci_commtype :: CommType
  ci_percabs :: bool

definition getCommissionRate :: "CommInfo \<Rightarrow> real" where
  "getCommissionRate c =
     (if ci_commtype c \<noteq> Percentage then 0
      else if ci_percabs c then ci_commission c
      else ci_commission c / 100)"

definition getCommission :: "CommInfo \<Rightarrow> real \<Rightarrow> real \<Rightarrow> real" where
  "getCommission c sz price =
     (case ci_commtype c of
        Percentage \<Rightarrow> \<bar>sz\<bar> * price * ci_mult c * getCommissionRate c
      | Fixed \<Rightarrow> \<bar>sz\<bar> * ci_commission c
      | PerTrade \<Rightarrow> ci_commission c)"

section \<open>Broker (broker.hpp, broker.cpp)\<close>

record SlippageConfig =
  perc :: real
  fixed :: real
  slipOpen :: bool
  slipMatch :: bool
  slipLimit :: bool
  slipOut :: bool

text \<open>The values \<^verbatim>\<open>feed->open()[0]\<close>, \<^verbatim>\<open>feed->high()[0]\<close>, ... of the bar under the cursor of
  a data feed.\<close>

record Bar =
  b_open :: real
  b_high :: real
  b_low :: real
  b_close :: real
  b_volume :: real

text \<open>\<^verbatim>\<open>commInfo_\<close> and \<^verbatim>\<open>filler_\<close> point to objects with a virtual \<^verbatim>\<open>getCommission\<close> and
  \<^verbatim>\<open>fill\<close>; they are functions here, \<open>None\<close> for a null pointer. \<^verbatim>\<open>positions_\<close> and
  \<^verbatim>\<open>dataFeeds_\<close> are maps keyed by the data name. The callbacks are not modelled.\<close>

record Broker =
  cash :: real
  positions :: "string \<rightharpoonup> Position"
  trades :: "Trade list"
  dataFeeds :: "string \<rightharpoonup> Bar"
  commInfo :: "(real \<Rightarrow> real \<Rightarrow> real) option"
  filler :: "(Order \<Rightarrow> real \<Rightarrow> real \<Rightarrow> nat) option"
  slip :: SlippageConfig

text \<open>\<^verbatim>\<open>static_cast<Size>\<close> of a non-negative double drops the fraction.\<close>

definition to_Size :: "real \<Rightarrow> nat" where
  "to_Size x = nat \<lfloor>x\<rfloor>"

definition DefaultFiller_fill :: "Order \<Rightarrow> real \<Rightarrow> real \<Rightarrow> nat" where
  "DefaultFiller_fill ord price volume = to_Size \<bar>o_size ord\<bar>"

definition applySlippage :: "real \<Rightarrow> bool \<Rightarrow> SlippageConfig \<Rightarrow> real" where
  "applySlippage price buy sl =
     (let slipAmount = (if perc sl > 0 then price * perc sl
                        else if fixed sl > 0 then fixed sl
                        else 0)
      in if buy then price + slipAmount else price - slipAmount)"

text \<open>The position update of \<^verbatim>\<open>Broker::executeOrder\<close> (the block after the cash update).\<close>

definition executeOrder_position :: "Position \<Rightarrow> bool \<Rightarrow> real \<Rightarrow> real \<Rightarrow> Position" where
  "executeOrder_position pos buy price sz =
     (if buy then
        (if p_size pos \<ge> 0 then
           let total = p_price pos * p_size pos + price * sz;
               size' = p_size pos + sz
           in \<lparr>p_size = size', p_price = (if size' > 0 then total / size' else 0)\<rparr>
         else
           let size' = p_size pos + sz
           in \<lparr>p_size = size', p_price = (if size' \<ge> 0 then price else p_price pos)\<rparr>)
      else
        (if p_size pos \<le> 0 then
           let total = p_price pos * \<bar>p_size pos\<bar> + price * sz;
               size' = p_size pos - sz
           in \<lparr>p_size = size', p_price = (if size' < 0 then total / \<bar>size'\<bar> else 0)\<rparr>
         else
           let size' = p_size pos - sz
           in \<lparr>p_size = size',
               p_price = (if size' \<le> 0 then (if size' < 0 then price else 0) else p_price pos)\<rparr>))"

text \<open>The trade record of \<^verbatim>\<open>Broker::executeOrder\<close>; \<open>pos\<close> is the position after the
  update above, as in the source.\<close>

definition executeOrder_trade ::
  "nat \<Rightarrow> string \<Rightarrow> bool \<Rightarrow> real \<Rightarrow> real \<Rightarrow> real \<Rightarrow> real \<Rightarrow> Position \<Rightarrow> Trade" where
  "executeOrder_trade ntrades dat buy price sz comm oldSize pos =
     (let trade = Trade_new\<lparr>t_ref := ntrades + 1, t_dataName := dat,
                    t_size := (if buy then sz else - sz), t_price := price, t_commission := comm\<rparr>;
          wasFlat = (oldSize = 0);
          isFlat = (p_size pos = 0)
      in if \<not> wasFlat \<and> isFlat then
           let pnl0 = (price - p_price pos) * \<bar>oldSize\<bar>;
               pnl1 = (if oldSize < 0 then - pnl0 else pnl0)
           in trade\<lparr>t_isOpen := False, t_pnl := pnl1, t_pnlComm := pnl1 - comm\<rparr>
         else trade\<lparr>t_isOpen := True\<rparr>)"

text \<open>\<^verbatim>\<open>positions_[data]\<close> inserts a flat position when the key is new.\<close>

definition position_of :: "Broker \<Rightarrow> string \<Rightarrow> Position" where
  "position_of b dat = (case positions b dat of None \<Rightarrow> \<lparr>p_size = 0, p_price = 0\<rparr> | Some p \<Rightarrow> p)"

definition executeOrder :: "Broker \<Rightarrow> Order \<Rightarrow> real \<Rightarrow> nat \<Rightarrow> Broker \<times> Order" where
  "executeOrder b ord price fillSize =
     (let dat = o_data ord;
          sz = real fillSize;
          comm = (case commInfo b of Some getComm \<Rightarrow> getComm sz price | None \<Rightarrow> 0);
          cost = price * sz;
          cash' = (if isBuy ord then cash b - (cost + comm) else cash b + (cost - comm));
          pos0 = position_of b dat;
          oldSize = p_size pos0;
          pos = executeOrder_position pos0 (isBuy ord) price sz;
          trade = executeOrder_trade (length (trades b)) dat (isBuy ord) price sz comm oldSize pos
      in (b\<lparr>cash := cash', positions := (positions b)(dat \<mapsto> pos), trades := trades b @ [trade]\<rparr>,
          ord\<lparr>o_status := Completed,
              o_execInfo := (o_execInfo ord)\<lparr>ei_price := price, ei_size := sz, ei_commission := comm\<rparr>\<rparr>))"

text \<open>The \<^verbatim>\<open>switch\<close> of \<^verbatim>\<open>Broker::tryExecute\<close>: whether the order matches the bar, and the
  price chosen before slippage (\<^verbatim>\<open>execPrice\<close> starts at 0).\<close>

definition tryExecute_match :: "Order \<Rightarrow> Bar \<Rightarrow> bool \<times> real" where
  "tryExecute_match ord feed =
     (case o_type ord of
        Market \<Rightarrow> (True, b_open feed)
      | Limit \<Rightarrow>
          if isBuy ord \<and> b_low feed \<le> o_price ord then
            (True, if b_open feed < o_price ord then b_open feed else o_price ord)
          else if \<not> isBuy ord \<and> b_high feed \<ge> o_price ord then
            (True, if b_open feed > o_price ord then b_open feed else o_price ord)
          else (False, 0)
      | _ \<Rightarrow> (False, 0))"

definition tryExecute :: "Broker \<Rightarrow> Order \<Rightarrow> bool \<times> Broker \<times> Order" where
  "tryExecute b ord =
     (case dataFeeds b (o_data ord) of
        None \<Rightarrow> (False, b, ord)
      | Some feed \<Rightarrow>
          let (exec, execPrice) = tryExecute_match ord feed in
          if exec then
            let fillSize = (case filler b of
                              Some fill \<Rightarrow> fill ord execPrice (b_volume feed)
                            | None \<Rightarrow> to_Size (o_size ord));
                execPrice' = applySlippage execPrice (isBuy ord) (slip b)
            in (True, executeOrder b ord execPrice' fillSize)
          else (False, b, ord))"

text \<open>\<^verbatim>\<open>Broker::next\<close>: every order whose status is \<^verbatim>\<open>Submitted\<close> goes through
  \<^verbatim>\<open>tryExecute\<close>, in the order of \<^verbatim>\<open>orders_\<close>.\<close>

fun Broker_next :: "Broker \<Rightarrow> Order list \<Rightarrow> Broker \<times> Order list" where
  "Broker_next b [] = (b, [])"
| "Broker_next b (ord # ords) =
     (if o_status ord \<noteq> Submitted then
        (let (b', ords') = Broker_next b ords in (b', ord # ords'))
      else
        (let (exec, b1, ord1) = tryExecute b ord;
             (b', ords') = Broker_next b1 ords
         in (b', ord1 # ords')))"

section \<open>Parameters (params.hpp)\<close>

text \<open>\<^verbatim>\<open>ParamValue\<close> is a \<^verbatim>\<open>std::variant\<close> of six alternatives; the template argument of
  \<^verbatim>\<open>get<T>\<close> names one of them.\<close>

datatype ParamValue =
  PBool bool | PInt int | PLong int | PDouble Value | PString string | PNull

datatype ParamType = TBool | TInt | TLong | TDouble | TString | TNull

fun type_of :: "ParamValue \<Rightarrow> ParamType" where
  "type_of (PBool _) = TBool"
| "type_of (PInt _) = TInt"
| "type_of (PLong _) = TLong"
| "type_of (PDouble _) = TDouble"
| "type_of (PString _) = TString"
| "type_of PNull = TNull"

text \<open>\<^verbatim>\<open>std::get<T>\<close> throws \<^verbatim>\<open>std::bad_variant_access\<close> when the variant holds another
  alternative.\<close>

definition std_get :: "ParamType \<Rightarrow> ParamValue \<Rightarrow> error + ParamValue" where
  "std_get T v = (if type_of v = T then Inr v else Inl BadVariantAccess)"

type_synonym Params = "string \<rightharpoonup> ParamValue"

definition Params_set :: "Params \<Rightarrow> string \<Rightarrow> ParamValue \<Rightarrow> Params" where
  "Params_set params name v = params(name \<mapsto> v)"

text \<open>\<^verbatim>\<open>T get(const std::string& name) const\<close>\<close>

definition Params_get :: "ParamType \<Rightarrow> Params \<Rightarrow> string \<Rightarrow> error + ParamValue" where
  "Params_get T params name =
     (case params name of
        None \<Rightarrow> Inl RuntimeError
      | Some v \<Rightarrow> std_get T v)"

text \<open>\<^verbatim>\<open>T get(const std::string& name, T defaultValue) const\<close>, with its \<^verbatim>\<open>catch (...)\<close>.\<close>

definition Params_get_default :: "ParamType \<Rightarrow> Params \<Rightarrow> string \<Rightarrow> ParamValue \<Rightarrow> ParamValue" where
  "Params_get_default T params name defaultValue =
     (case params name of
        None \<Rightarrow> defaultValue
      | Some v \<Rightarrow> (case std_get T v of Inr x \<Rightarrow> x | Inl _ \<Rightarrow> defaultValue))"

section \<open>Parameter grid and optimisation (threadpool.hpp, optimizer.hpp, cerebro.cpp)\<close>

text \<open>\<^verbatim>\<open>Size\<close> is \<^verbatim>\<open>std::size_t\<close>, 64 bits wide. The number of combinations is
  computed in that type and is a 64-bit word here, so that the product wraps as in the source;
  the size of a vector converts to it without loss.\<close>

record ParameterGrid =
  paramNames :: "string list"
  paramValues :: "ParamValue list list"

definition ParameterGrid_new :: ParameterGrid where
  "ParameterGrid_new = \<lparr>paramNames = [], paramValues = []\<rparr>"

definition addParam :: "ParameterGrid \<Rightarrow> string \<Rightarrow> ParamValue list \<Rightarrow> ParameterGrid" where
  "addParam g name vals = \<lparr>paramNames = paramNames g @ [name], paramValues = paramValues g @ [vals]\<rparr>"

text \<open>A grid as a caller declares it: one \<^verbatim>\<open>addParam\<close> per parameter, starting from an
  empty grid.\<close>

definition grid_of :: "(string \<times> ParamValue list) list \<Rightarrow> ParameterGrid" where
  "grid_of decls = fold (\<lambda>(name, vals) g. addParam g name vals) decls ParameterGrid_new"

definition totalCombinations :: "ParameterGrid \<Rightarrow> 64 word" where
  "totalCombinations g = fold (\<lambda>vals total. total * of_nat (length vals)) (paramValues g) 1"

text \<open>The inner loop of \<^verbatim>\<open>generate\<close> that builds one \<^verbatim>\<open>ParamSet\<close> from the indices.\<close>

definition make_paramSet :: "ParameterGrid \<Rightarrow> nat list \<Rightarrow> Params" where
  "make_paramSet g indices =
     fold (\<lambda>j paramSet. paramSet(paramNames g ! j \<mapsto> paramValues g ! j ! (indices ! j)))
       [0..<length (paramNames g)] Map.empty"

text \<open>The index update of \<^verbatim>\<open>generate\<close>: \<open>j\<close> runs from the number of parameters down to 1.\<close>

fun update_indices :: "ParameterGrid \<Rightarrow> nat \<Rightarrow> nat list \<Rightarrow> nat list" where
  "update_indices g 0 indices = indices"
| "update_indices g (Suc idx) indices =
     (let indices' = indices[idx := indices ! idx + 1] in
      if indices' ! idx < length (paramValues g ! idx) then indices'
      else update_indices g idx (indices'[idx := 0]))"

text \<open>\<^verbatim>\<open>generate\<close> computes the same wrapped product into a local of its own and runs
  its outer loop that many times.\<close>

definition generate :: "ParameterGrid \<Rightarrow> Params list" where
  "generate g =
     (if paramNames g = [] then []
      else
        let total = fold (\<lambda>vals total. total * of_nat (length vals)) (paramValues g) (1 :: 64 word) in
        fst (fold (\<lambda>i (results, indices).
                     (results @ [make_paramSet g indices],
                      update_indices g (length (paramNames g)) indices))
               [0..<unat total]
               ([], replicate (length (paramNames g)) 0)))"

record OptResult =
  params :: Params
  finalValue :: real
  pnl :: real
  pnlPct :: real
  sharpeRatio :: Value
  maxDrawdown :: Value
  totalTrades :: nat
  winningTrades :: nat
  winRate :: real



section \<open>Mixed-radix counting\<close>


fun dig :: "nat list \<Rightarrow> nat \<Rightarrow> nat list" where
  "dig [] i = []"
| "dig (k # rk) i = (i mod k) # dig rk (i div k)"

section \<open>Concrete inputs\<close>

text \<open>A ring of capacity 3 after three pushes; its cursor has not moved. The same ring as the
  storage of a line buffer, and an unbounded line buffer of three values with its cursor on
  the second.\<close>

definition ring3 :: QBufferStorage where
  "ring3 = \<lparr>data_q = [Fin 1, Fin 2, Fin 3], maxlen_q = 3, pos_q = 0, total_pushed_q = 3\<rparr>"

definition ring3_line :: LineBuffer where
  "ring3_line = \<lparr>lb_storage = QBuffer ring3, lb_minperiod = 1\<rparr>"

definition line3 :: LineBuffer where
  "line3 = \<lparr>lb_storage = Unbounded \<lparr>data_u = [Fin 1, Fin 2, Fin 3], pos_u = 1\<rparr>, lb_minperiod = 1\<rparr>"

text \<open>The close series of scenario S1, as an unbounded line with the cursor on a given bar,
  and an empty output line.\<close>

definition S1_close :: "Value list" where
  "S1_close = map Fin [100, 101, 102, 101, 103, 104.5, 105, 104, 106, 107.5,
                       108, 107, 109, 110.5, 111, 110, 112, 113.5, 114, 113]"

definition S1_input :: "int \<Rightarrow> Storage" where
  "S1_input bar = Unbounded \<lparr>data_u = S1_close, pos_u = bar\<rparr>"

definition empty_line :: Storage where
  "empty_line = Unbounded UnboundedStorage_new"

definition S1_sma :: "Value list" where
  "S1_sma = map Fin [101.4, 102.3, 103.1, 103.5, 104.5, 105.4, 106.1, 106.5, 107.5, 108.4,
                     109.1, 109.5, 110.5, 111.4, 112.1, 112.5]"

text \<open>A four-bar series on which the two smoothings of the RSI differ.\<close>

definition rsi_input :: "int \<Rightarrow> Storage" where
  "rsi_input bar = Unbounded \<lparr>data_u = map Fin [1, 2, 3, 2], pos_u = bar\<rparr>"

text \<open>Scenario S4: a broker with a percentage commission of 0.001 (\<^verbatim>\<open>percabs\<close>), a feed
  whose bar opens at 50 and then at 55, a market buy of 100 and a market sell of 100.\<close>

definition S4_comm :: CommInfo where
  "S4_comm = \<lparr>ci_commission = 0.001, ci_mult = 1, ci_commtype = Percentage, ci_percabs = True\<rparr>"

definition S4_bar :: "real \<Rightarrow> Bar" where
  "S4_bar p = \<lparr>b_open = p, b_high = p + 1, b_low = p - 1, b_close = p, b_volume = 1000\<rparr>"

definition no_slip :: SlippageConfig where
  "no_slip = \<lparr>perc = 0, fixed = 0, slipOpen = False, slipMatch = True, slipLimit = True, slipOut = False\<rparr>"

definition S4_broker :: Broker where
  "S4_broker = \<lparr>cash = 100000, positions = Map.empty, trades = [],
     dataFeeds = [''data'' \<mapsto> S4_bar 50],
     commInfo = Some (getCommission S4_comm), filler = Some DefaultFiller_fill, slip = no_slip\<rparr>"

definition order_new :: "nat \<Rightarrow> OrderSide \<Rightarrow> OrderType \<Rightarrow> real \<Rightarrow> real \<Rightarrow> Order" where
  "order_new r sd ty sz pr =
     \<lparr>o_ref = r, o_side = sd, o_type = ty, o_status = Submitted, o_size = sz, o_price = pr,
      o_data = ''data'',
      o_execInfo = \<lparr>ei_price = 0, ei_size = 0, ei_value = 0, ei_commission = 0, ei_pnl = 0,
                    ei_barIndex = 0\<rparr>\<rparr>"

definition S4_after_buy :: Broker where
  "S4_after_buy = (fst (snd (tryExecute S4_broker (order_new 1 Buy Market 100 0))))
                     \<lparr>dataFeeds := [''data'' \<mapsto> S4_bar 55]\<rparr>"

definition S4_after_sell :: Broker where
  "S4_after_sell = fst (snd (tryExecute S4_after_buy (order_new 2 Sell Market 100 0)))"





definition wide_decls :: "(string \<times> ParamValue list) list" where
  "wide_decls = map (\<lambda>j. (''p'' @ replicate j CHR ''x'', [PBool False, PBool True])) [0..<64]"


section \<open>Line buffer: access paths and the ring\<close>

text \<open>C3, as it holds on the code. A read of a line buffer at offset \<open>k\<close> refers to position
  \<open>pos - k\<close> when the buffer is unbounded and to position \<open>size - 1 - k\<close>, counted from the
  tail and whatever the cursor, when it is a ring. When that position lies in \<open>[0, size)\<close>,
  both \<^verbatim>\<open>operator[]\<close> overloads of the line buffer and both \<^verbatim>\<open>at\<close> overloads of its storage
  give the stored element; when it lies outside, the mutable access path throws.\<close>

theorem C3_line_buffer_reads:
  "(0 \<le> read_position (lb_storage lb) k \<and> read_position (lb_storage lb) k < int (size_s (lb_storage lb))
      \<longrightarrow> op_index lb k = Inr (stored (lb_storage lb) ! nat (read_position (lb_storage lb) k))
        \<and> op_index_const lb k = Inr (stored (lb_storage lb) ! nat (read_position (lb_storage lb) k))
        \<and> at_mut (lb_storage lb) k = Inr (stored (lb_storage lb) ! nat (read_position (lb_storage lb) k))
        \<and> at_const (lb_storage lb) k = stored (lb_storage lb) ! nat (read_position (lb_storage lb) k))
   \<and> (\<not> (0 \<le> read_position (lb_storage lb) k
            \<and> read_position (lb_storage lb) k < int (size_s (lb_storage lb)))
      \<longrightarrow> op_index lb k = Inl OutOfRange \<and> at_mut (lb_storage lb) k = Inl OutOfRange)"
proof (cases "lb_storage lb")
  case (Unbounded u)
  then show ?thesis
    by (simp add: op_index_def op_index_const_def at_mut_u_def at_const_u_def size_u_def Let_def)
next
  case (QBuffer q)
  then show ?thesis
    by (simp add: op_index_def op_index_const_def at_mut_q_def at_const_q_def size_q_def Let_def)
qed

theorem C3_line_buffer_reads_witness:
  "op_index line3 1 = Inr (Fin 1) \<and> op_index_const line3 1 = Inr (Fin 1)
   \<and> op_index line3 2 = Inl OutOfRange
   \<and> op_index ring3_line 2 = Inr (Fin 1) \<and> op_index_const ring3_line 2 = Inr (Fin 1)
   \<and> op_index ring3_line 3 = Inl OutOfRange
   \<and> op_index ring3_line (- 1) = Inl OutOfRange"
  using C3_line_buffer_reads[of line3 1] C3_line_buffer_reads[of line3 2]
        C3_line_buffer_reads[of ring3_line 2] C3_line_buffer_reads[of ring3_line 3]
        C3_line_buffer_reads[of ring3_line "- 1"]
  by (simp add: line3_def ring3_line_def ring3_def size_u_def size_q_def)

text \<open>On the ring of three values with its cursor at 0, offset 1 gives cursor position minus
  offset \<open>-1\<close>, outside \<open>[0, 3)\<close>; yet the reads of the line buffer and of its storage return
  the stored value 2: the mutable path does not fail and the const path does not give NaN.\<close>

theorem C3_counterexample:
  "extend_s (QBuffer (QBufferStorage_new 3)) [Fin 1, Fin 2, Fin 3] = Inr (QBuffer ring3)
   \<and> position (QBuffer ring3) - 1 < 0
   \<and> at_const (QBuffer ring3) 1 = Fin 2
   \<and> at_mut (QBuffer ring3) 1 = Inr (Fin 2)
   \<and> op_index ring3_line 1 = Inr (Fin 2)
   \<and> op_index_const ring3_line 1 = Inr (Fin 2)"
  by (simp add: ring3_line_def ring3_def QBufferStorage_new_def push_back_q_def at_const_q_def
        at_mut_q_def op_index_def op_index_const_def)

text \<open>Out of range the const \<^verbatim>\<open>operator[]\<close> of a line buffer throws like the mutable one;
  the NaN of the const \<^verbatim>\<open>at\<close> overload is reached through a const storage only.\<close>

lemma op_index_const_out_of_range:
  "op_index_const line3 2 = Inl OutOfRange \<and> op_index_const ring3_line 3 = Inl OutOfRange
   \<and> at_const (lb_storage line3) 2 = NaN \<and> at_const (lb_storage ring3_line) 3 = NaN"
  by (simp add: line3_def ring3_line_def ring3_def op_index_const_def at_mut_u_def at_mut_q_def
        at_const_u_def at_const_q_def)

lemma push_back_q_lastn:
  assumes "0 < maxlen_q s" "length (data_q s) \<le> maxlen_q s"
  shows "\<exists>s'. push_back_q s v = Inr s'
     \<and> data_q s' = drop (length (data_q s) + 1 - maxlen_q s) (data_q s @ [v])
     \<and> maxlen_q s' = maxlen_q s \<and> pos_q s' = pos_q s
     \<and> total_pushed_q s' = total_pushed_q s + 1"
  using assms by (cases "data_q s") (auto simp: push_back_q_def)

lemma drop_drop_append:
  assumes "n1 \<le> length L"
  shows "drop m (drop n1 L @ vs) = drop (n1 + m) (L @ vs)"
proof -
  have a: "drop n1 (L @ vs) = drop n1 L @ vs" using assms by simp
  have "drop m (drop n1 L @ vs) = drop m (drop n1 (L @ vs))" by (simp only: a)
  also have "\<dots> = drop (m + n1) (L @ vs)" by (rule drop_drop)
  finally show ?thesis by (simp only: add.commute)
qed

lemma extend_q_lastn:
  assumes "0 < maxlen_q s" "length (data_q s) \<le> maxlen_q s"
  shows "\<exists>s'. extend_s (QBuffer s) xs = Inr (QBuffer s')
     \<and> data_q s' = drop (length (data_q s) + length xs - maxlen_q s) (data_q s @ xs)
     \<and> maxlen_q s' = maxlen_q s \<and> pos_q s' = pos_q s
     \<and> total_pushed_q s' = total_pushed_q s + length xs"
  using assms
proof (induction xs arbitrary: s)
  case Nil
  then show ?case by simp
next
  case (Cons v vs)
  let ?N = "maxlen_q s"
  let ?a = "length (data_q s)"
  obtain s1 where p: "push_back_q s v = Inr s1"
    and d1: "data_q s1 = drop (?a + 1 - ?N) (data_q s @ [v])"
    and m1: "maxlen_q s1 = ?N" and p1: "pos_q s1 = pos_q s"
    and t1: "total_pushed_q s1 = total_pushed_q s + 1"
    using push_back_q_lastn[OF Cons.prems] by blast
  have l1: "length (data_q s1) = ?a + 1 - (?a + 1 - ?N)" using d1 by simp
  have inv: "0 < maxlen_q s1" "length (data_q s1) \<le> maxlen_q s1"
    using Cons.prems m1 l1 by auto
  obtain s2 where e: "extend_s (QBuffer s1) vs = Inr (QBuffer s2)"
    and d2: "data_q s2 = drop (length (data_q s1) + length vs - maxlen_q s1) (data_q s1 @ vs)"
    and m2: "maxlen_q s2 = maxlen_q s1" and p2: "pos_q s2 = pos_q s1"
    and t2: "total_pushed_q s2 = total_pushed_q s1 + length vs"
    using Cons.IH[OF inv] by blast
  define n1 where "n1 = ?a + 1 - ?N"
  define m where "m = length (data_q s1) + length vs - ?N"
  have le: "n1 \<le> length (data_q s @ [v])" by (simp add: n1_def)
  have "data_q s2 = drop m (drop n1 (data_q s @ [v]) @ vs)"
    using d2 d1 by (simp only: m1 m_def n1_def)
  also have "\<dots> = drop (n1 + m) ((data_q s @ [v]) @ vs)"
    by (rule drop_drop_append[OF le])
  also have "n1 + m = ?a + length (v # vs) - ?N"
    using Cons.prems l1 by (auto simp: n1_def m_def)
  finally have d: "data_q s2 = drop (?a + length (v # vs) - ?N) (data_q s @ v # vs)" by simp
  have "extend_s (QBuffer s) (v # vs) = Inr (QBuffer s2)" using p e by simp
  then show ?case using d m1 m2 p1 p2 t1 t2 by auto
qed

lemma apply_move_q:
  "\<exists>s'. apply_move m (QBuffer s) = QBuffer s' \<and> data_q s' = data_q s"
  by (cases m) (auto simp: advance_q_def rewind_q_def home_q_def)

lemma apply_moves_q:
  "\<exists>s'. apply_moves ms (QBuffer s) = QBuffer s' \<and> data_q s' = data_q s"
proof (induction ms arbitrary: s)
  case Nil
  then show ?case by (simp add: apply_moves_def)
next
  case (Cons m ms)
  obtain s1 where a: "apply_move m (QBuffer s) = QBuffer s1" "data_q s1 = data_q s"
    using apply_move_q by blast
  obtain s2 where b: "apply_moves ms (QBuffer s1) = QBuffer s2" "data_q s2 = data_q s1"
    using Cons.IH by blast
  show ?case using a b by (auto simp: apply_moves_def)
qed

text \<open>C4. A ring of capacity \<open>N > 0\<close> that receives \<open>N + k\<close> pushes accepts them all,
  holds the last \<open>N\<close> values, reports \<open>size = N\<close> and \<open>length = N + k\<close>, and after any
  sequence of advance, rewind and home reads the last pushed value at offset 0 on both access
  paths.\<close>

theorem C4_qbuffer_retains_last:
  assumes "0 < N" and "length xs = N + k"
  shows "\<exists>s. extend_s (QBuffer (QBufferStorage_new N)) xs = Inr (QBuffer s)
     \<and> data_q s = drop k xs \<and> size_q s = N \<and> length_q s = N + k
     \<and> (\<forall>ms. at_const (apply_moves ms (QBuffer s)) 0 = last xs
             \<and> at_mut (apply_moves ms (QBuffer s)) 0 = Inr (last xs))"
proof -
  have i: "0 < maxlen_q (QBufferStorage_new N)"
      "length (data_q (QBufferStorage_new N)) \<le> maxlen_q (QBufferStorage_new N)"
    using assms by (simp_all add: QBufferStorage_new_def)
  obtain s where e: "extend_s (QBuffer (QBufferStorage_new N)) xs = Inr (QBuffer s)"
    and d: "data_q s = drop k xs" and t: "total_pushed_q s = N + k"
    using extend_q_lastn[OF i, of xs] assms by (auto simp: QBufferStorage_new_def)
  have ne: "xs \<noteq> []" using assms by auto
  have len: "length (drop k xs) = N" using assms by simp
  have lst: "drop k xs ! (N - 1) = last xs"
    using assms ne by (simp add: last_conv_nth add.commute)
  have rd: "at_const (apply_moves ms (QBuffer s)) 0 = last xs
             \<and> at_mut (apply_moves ms (QBuffer s)) 0 = Inr (last xs)" for ms
  proof -
    obtain s' where "apply_moves ms (QBuffer s) = QBuffer s'" "data_q s' = data_q s"
      using apply_moves_q by blast
    then show ?thesis using len lst assms(1) d
      by (simp add: at_const_q_def at_mut_q_def nat_diff_distrib')
  qed
  show ?thesis
    apply (rule exI[of _ s])
    using e rd len d t by (simp add: size_q_def length_q_def)
qed

theorem C4_qbuffer_retains_last_witness:
  "0 < (2::nat) \<and> length [Fin 1, Fin 2, Fin 3] = 2 + 1
   \<and> extend_s (QBuffer (QBufferStorage_new 2)) [Fin 1, Fin 2, Fin 3]
       = Inr (QBuffer \<lparr>data_q = [Fin 2, Fin 3], maxlen_q = 2, pos_q = 0, total_pushed_q = 3\<rparr>)
   \<and> at_const (apply_moves [Advance, Advance, Rewind, Home, Advance]
        (QBuffer \<lparr>data_q = [Fin 2, Fin 3], maxlen_q = 2, pos_q = 0, total_pushed_q = 3\<rparr>)) 0 = Fin 3"
  using C4_qbuffer_retains_last[of 2 "[Fin 1, Fin 2, Fin 3]" 1]
  by (simp add: QBufferStorage_new_def push_back_q_def apply_moves_def advance_q_def
        rewind_q_def home_q_def at_const_q_def)

section \<open>Parameters: lookup with and without a default\<close>

text \<open>C10. \<^verbatim>\<open>get(name, defaultValue)\<close> returns the default when the key is absent and also
  when the key holds a value of another alternative than the one requested, where the
  defaultless \<^verbatim>\<open>get(name)\<close> fails: with the missing-key error for an absent key, with
  \<^verbatim>\<open>std::bad_variant_access\<close> for the other alternative. A value of the requested alternative
  is returned by both.\<close>

theorem C10_get_default:
  "(pm name = None \<longrightarrow>
      Params_get_default T pm name d = d \<and> Params_get T pm name = Inl RuntimeError)
   \<and> (\<forall>v. pm name = Some v \<and> type_of v \<noteq> T \<longrightarrow>
      Params_get_default T pm name d = d \<and> Params_get T pm name = Inl BadVariantAccess)
   \<and> (\<forall>v. pm name = Some v \<and> type_of v = T \<longrightarrow>
      Params_get_default T pm name d = v \<and> Params_get T pm name = Inr v)"
  by (simp add: Params_get_default_def Params_get_def std_get_def)

theorem C10_get_default_witness:
  "Params_get_default TInt (Params_set Map.empty ''period'' (PString ''x'')) ''period'' (PInt 30) = PInt 30
   \<and> Params_get TInt (Params_set Map.empty ''period'' (PString ''x'')) ''period'' = Inl BadVariantAccess
   \<and> Params_get_default TInt (Params_set Map.empty ''period'' (PString ''x'')) ''fast'' (PInt 30) = PInt 30
   \<and> Params_get TInt (Params_set Map.empty ''period'' (PString ''x'')) ''fast'' = Inl RuntimeError
   \<and> Params_get_default TInt (Params_set Map.empty ''period'' (PInt 5)) ''period'' (PInt 30) = PInt 5"
  using C10_get_default[of "Params_set Map.empty ''period'' (PString ''x'')" "''period''" TInt "PInt 30"]
        C10_get_default[of "Params_set Map.empty ''period'' (PString ''x'')" "''fast''" TInt "PInt 30"]
        C10_get_default[of "Params_set Map.empty ''period'' (PInt 5)" "''period''" TInt "PInt 30"]
  by (simp add: Params_set_def)

section \<open>The EMA kernel\<close>

lemma fold_fill_length [simp]:
  "length (fold (\<lambda>i r. r[i := g i r]) is r) = length r"
  by (induction "is" arbitrary: r) auto

lemma fold_fill_outside:
  "j \<notin> set is \<Longrightarrow> fold (\<lambda>i r. r[i := g i r]) is r ! j = r ! j"
  by (induction "is" arbitrary: r) auto

lemma fold_fill_const:
  "j \<in> set is \<Longrightarrow> j < length r \<Longrightarrow> fold (\<lambda>i r. r[i := c]) is r ! j = c"
proof (induction "is" arbitrary: r)
  case Nil
  then show ?case by simp
next
  case (Cons a "is")
  show ?case
  proof (cases "j \<in> set is")
    case True
    then show ?thesis using Cons by simp
  next
    case False
    then have "j = a" using Cons.prems by simp
    then show ?thesis using False Cons.prems by (simp add: fold_fill_outside)
  qed
qed

text \<open>A loop that writes slot \<open>i\<close> from slot \<open>i - 1\<close>, for \<open>i\<close> from \<open>p\<close> up, leaves an
  array in which every written slot satisfies the recurrence.\<close>

lemma fold_recurrence:
  assumes "1 \<le> p" "n \<le> length r"
  shows "\<forall>i. p \<le> i \<and> i < n \<longrightarrow>
           fold (\<lambda>i r. r[i := h i (r ! (i - 1))]) [p..<n] r ! i
             = h i (fold (\<lambda>i r. r[i := h i (r ! (i - 1))]) [p..<n] r ! (i - 1))"
  using assms(2)
proof (induction n)
  case 0
  then show ?case by simp
next
  case (Suc n)
  let ?G = "fold (\<lambda>i r. r[i := h i (r ! (i - 1))]) [p..<n] r"
  show ?case
  proof (cases "p \<le> n")
    case False
    then show ?thesis by auto
  next
    case True
    then have e: "fold (\<lambda>i r. r[i := h i (r ! (i - 1))]) [p..<Suc n] r = ?G[n := h n (?G ! (n - 1))]"
      by simp
    have len: "n < length ?G" using Suc.prems by simp
    have IH: "\<forall>i. p \<le> i \<and> i < n \<longrightarrow> ?G ! i = h i (?G ! (i - 1))"
      using Suc by simp
    show ?thesis
    proof (intro allI impI)
      fix i assume i: "p \<le> i \<and> i < Suc n"
      show "fold (\<lambda>i r. r[i := h i (r ! (i - 1))]) [p..<Suc n] r ! i
             = h i (fold (\<lambda>i r. r[i := h i (r ! (i - 1))]) [p..<Suc n] r ! (i - 1))"
      proof (cases "i = n")
        case True
        then show ?thesis using len assms(1) i unfolding e by simp
      next
        case False
        then have "i < n" using i by simp
        then show ?thesis using IH i unfolding e by simp
      qed
    qed
  qed
qed

lemma sum_v_Fin:
  "n \<le> length xs \<Longrightarrow> sum_v (map Fin xs) n = Fin (sum_list (take n xs))"
proof (induction n)
  case 0
  then show ?case by (simp add: sum_v_def)
next
  case (Suc n)
  then have "sum_v (map Fin xs) n = Fin (sum_list (take n xs))" by simp
  then show ?case using Suc.prems by (simp add: sum_v_def take_Suc_conv_app_nth)
qed

lemma mean_v_Fin:
  "0 < n \<Longrightarrow> n \<le> length xs \<Longrightarrow> mean_v (map Fin xs) n = Fin (sum_list (take n xs) / real n)"
  by (simp add: mean_v_def sum_v_Fin)

text \<open>C5. For a period of at least 1 and an input of at least \<open>period\<close> values, the EMA kernel
  writes every slot of the output: NaN at the indices below \<open>period - 1\<close>; at index
  \<open>period - 1\<close> the mean of the first \<open>period\<close> inputs (for finite inputs their sum divided by
  \<open>period\<close>); and at every later index \<open>i\<close> the value
  \<open>alpha * x[i] + (1 - alpha) * out[i - 1]\<close> with \<open>alpha = 2 / (period + 1)\<close>.\<close>

theorem C5_ema_kernel:
  assumes "1 \<le> period" "period \<le> dataLen" "length data = dataLen" "length result = dataLen"
  shows "let out = ema data result dataLen period; alpha = 2 / (real period + 1) in
     length out = dataLen
     \<and> (\<forall>i. i < period - 1 \<longrightarrow> out ! i = NaN)
     \<and> out ! (period - 1) = mean_v data period
     \<and> (\<forall>xs. data = map Fin xs \<longrightarrow> out ! (period - 1) = Fin (sum_list (take period xs) / real period))
     \<and> (\<forall>i. period \<le> i \<and> i < dataLen \<longrightarrow>
           out ! i = vadd (vmul (Fin alpha) (data ! i)) (vmul (Fin (1 - alpha)) (out ! (i - 1))))"
proof -
  define alpha where "alpha = 2 / (real period + 1)"
  define r1 where "r1 = fold (\<lambda>i r. r[i := NaN]) [0..<min (period - 1) dataLen] result"
  define r2 where "r2 = r1[period - 1 := vdiv (sum_v data period) (Fin (real period))]"
  define h where "h = (\<lambda>i v. vadd (vmul (Fin alpha) (data ! i)) (vmul (vsub (Fin 1) (Fin alpha)) v))"
  define out where "out = fold (\<lambda>i r. r[i := h i (r ! (i - 1))]) [period..<dataLen] r2"
  have out_eq: "ema data result dataLen period = out"
    using assms(1,2) by (simp add: ema_def Let_def out_def h_def r2_def r1_def alpha_def)
  have l1: "length r1 = dataLen" using assms by (simp add: r1_def)
  have l2: "length r2 = dataLen" using l1 by (simp add: r2_def)
  have lo: "length out = dataLen" using l2 by (simp add: out_def)
  have pre: "out ! j = r2 ! j" if "j < period" for j
    unfolding out_def using that by (intro fold_fill_outside) simp
  have nanp: "out ! i = NaN" if "i < period - 1" for i
  proof -
    have "r1 ! i = NaN" unfolding r1_def using that assms
      by (intro fold_fill_const) auto
    then show ?thesis using that pre[of i] by (simp add: r2_def)
  qed
  have seed: "out ! (period - 1) = mean_v data period"
    using pre[of "period - 1"] assms l1 by (simp add: r2_def mean_v_def)
  have seedF: "out ! (period - 1) = Fin (sum_list (take period xs) / real period)" if "data = map Fin xs" for xs
    using seed that assms mean_v_Fin[of period xs] by simp
  have rec: "out ! i = h i (out ! (i - 1))" if "period \<le> i" "i < dataLen" for i
    using fold_recurrence[of period dataLen r2 h] assms(1) l2 that unfolding out_def by simp
  show ?thesis
    unfolding out_eq Let_def alpha_def[symmetric]
    using lo nanp seed seedF rec by (simp add: h_def)
qed

theorem C5_ema_kernel_witness:
  "(1::nat) \<le> 2 \<and> (2::nat) \<le> 5 \<and> length (map Fin [1, 2, 3, 2, 5]) = 5
   \<and> length (replicate 5 (Fin 0)) = 5
   \<and> ema (map Fin [1, 2, 3, 2, 5]) (replicate 5 (Fin 0)) 5 2
        = [NaN, Fin (3 / 2), Fin (5 / 2), Fin (13 / 6), Fin (73 / 18)]
   \<and> mean_v (map Fin [1, 2, 3, 2, 5]) 2 = Fin (3 / 2)"
proof -
  have e: "ema (map Fin [1, 2, 3, 2, 5]) (replicate 5 (Fin 0)) 5 2
        = [NaN, Fin (3 / 2), Fin (5 / 2), Fin (13 / 6), Fin (73 / 18)]"
    by code_simp
  have "let out = ema (map Fin [1, 2, 3, 2, 5]) (replicate 5 (Fin 0)) 5 2 in
          length out = 5 \<and> out ! (2 - 1) = mean_v (map Fin [1, 2, 3, 2, 5]) 2"
    using C5_ema_kernel[of 2 5 "map Fin [1, 2, 3, 2, 5]" "replicate 5 (Fin 0)"]
    by (simp add: Let_def)
  then show ?thesis using e by (simp add: Let_def)
qed

section \<open>SMA: event-driven and bulk computation on scenario S1\<close>

text \<open>On the close series of S1 with period 5, \<^verbatim>\<open>once(0, 20)\<close> leaves 16 values in the output
  line: its first stored value is not NaN, the value stored at index 4 is not 101.4, and the
  kernel's value for bar 19 is 112.5, not 111.6.\<close>

theorem C1_counterexample:
  "SMA_once 5 (S1_input 0) empty_line 0 20 = Inr (Unbounded \<lparr>data_u = S1_sma, pos_u = 0\<rparr>)
   \<and> size_s (Unbounded \<lparr>data_u = S1_sma, pos_u = 0\<rparr>) = 16
   \<and> stored (Unbounded \<lparr>data_u = S1_sma, pos_u = 0\<rparr>) ! 0 \<noteq> NaN
   \<and> stored (Unbounded \<lparr>data_u = S1_sma, pos_u = 0\<rparr>) ! 4 \<noteq> Fin (1014 / 10)
   \<and> slidingMean S1_close (replicate 20 (Fin 0)) 20 5 ! 19 = Fin (1125 / 10)
   \<and> slidingMean S1_close (replicate 20 (Fin 0)) 20 5 ! 19 \<noteq> Fin (1116 / 10)"
  by code_simp

text \<open>C1, as it holds on the code. On the close series of S1 with period 5, \<^verbatim>\<open>once(0, 20)\<close>
  stores the 16 averages of bars 4 to 19 and no NaN; 16 event-driven \<^verbatim>\<open>next()\<close> calls with
  the data cursor on bars 4 to 19 store the same line. The kernel's array for the 20 bars is
  four NaN followed by these 16 values, the first of them 101.4 (bar 4) and the last 112.5
  (bar 19).\<close>

theorem C1_sma_once_next:
  "SMA_once 5 (S1_input 0) empty_line 0 20 = Inr (Unbounded \<lparr>data_u = S1_sma, pos_u = 0\<rparr>)
   \<and> SMA_run_next 5 (S1_input 4) empty_line 16 = Inr (Unbounded \<lparr>data_u = S1_sma, pos_u = 0\<rparr>)
   \<and> slidingMean S1_close (replicate 20 (Fin 0)) 20 5 = replicate 4 NaN @ S1_sma
   \<and> length S1_sma = 16
   \<and> S1_sma ! 0 = Fin (1014 / 10)
   \<and> S1_sma ! 15 = Fin (1125 / 10)"
  by code_simp

text \<open>With the data cursor on one of the first four bars \<^verbatim>\<open>next()\<close> reads before the start
  of the line and throws.\<close>

lemma SMA_next_before_period:
  "SMA_run_next 5 (S1_input 0) empty_line 20 = Inl OutOfRange
   \<and> SMA_next 5 (S1_input 3) empty_line = Inl OutOfRange"
  by code_simp

section \<open>RSI: the smoothing of the kernel\<close>

text \<open>C6 at the input \<open>[1, 2, 3, 2]\<close> with period 2. The kernel smooths gains and losses
  with \<^verbatim>\<open>ema\<close>, whose factor is \<open>2 / (period + 1) = 2/3\<close>, and gives \<open>100/3\<close> for the last bar;
  \<^verbatim>\<open>RSI::next\<close> smooths with \<open>1 / period = 1/2\<close> and gives 50.\<close>

theorem C6_rsi_kernel_smoothing:
  "rsi (map Fin [1, 2, 3, 2]) (replicate 4 (Fin 0)) 4 2 = [NaN, NaN, Fin 100, Fin (100 / 3)]
   \<and> map_sum id snd (RSI_run_next 2 (rsi_input 1) (RSI_init 2, empty_line) 3)
       = Inr (Unbounded \<lparr>data_u = [NaN, Fin 100, Fin 50], pos_u = 0\<rparr>)"
  by code_simp

section \<open>Broker: limit orders, positions and trades\<close>

text \<open>C2. For a Limit order on a registered data feed, \<^verbatim>\<open>tryExecute\<close> executes a buy exactly
  when the bar's low is at most the limit price and a sell exactly when the bar's high is at
  least the limit price. The price chosen before slippage is \<open>min(open, limit)\<close> for a buy and
  \<open>max(open, limit)\<close> for a sell; the price recorded for the execution is that price plus the
  slippage amount for a buy and minus it for a sell, where the amount is \<open>price * perc\<close> when
  \<open>perc > 0\<close>, else \<open>fixed\<close> when \<open>fixed > 0\<close>, else 0. An order that does not execute
  leaves broker and order as they were.\<close>

theorem C2_limit_order:
  assumes "dataFeeds b (o_data ord) = Some feed" and "o_type ord = Limit"
  shows "let p = (if isBuy ord then min (b_open feed) (o_price ord)
                  else max (b_open feed) (o_price ord));
             slipAmount = (if perc (slip b) > 0 then p * perc (slip b)
                           else if fixed (slip b) > 0 then fixed (slip b) else 0);
             exec = fst (tryExecute b ord);
             ord' = snd (snd (tryExecute b ord))
         in (exec \<longleftrightarrow> (if isBuy ord then b_low feed \<le> o_price ord
                              else b_high feed \<ge> o_price ord))
          \<and> (exec \<longrightarrow> tryExecute_match ord feed = (True, p)
                \<and> ei_price (o_execInfo ord') = (if isBuy ord then p + slipAmount else p - slipAmount)
                \<and> o_status ord' = Completed)
          \<and> (\<not> exec \<longrightarrow> snd (tryExecute b ord) = (b, ord))"
  using assms
  by (auto simp: tryExecute_def tryExecute_match_def applySlippage_def executeOrder_def Let_def
        min_def max_def split: prod.splits)

theorem C2_limit_order_witness:
  "fst (tryExecute S4_broker (order_new 1 Buy Limit 10 (99/2)))
   \<and> ei_price (o_execInfo (snd (snd (tryExecute S4_broker (order_new 1 Buy Limit 10 (99/2)))))) = 99/2
   \<and> \<not> fst (tryExecute S4_broker (order_new 1 Buy Limit 10 48))
   \<and> fst (tryExecute (S4_broker\<lparr>slip := no_slip\<lparr>perc := 1/100\<rparr>\<rparr>) (order_new 1 Sell Limit 10 (101/2)))
   \<and> ei_price (o_execInfo (snd (snd (tryExecute (S4_broker\<lparr>slip := no_slip\<lparr>perc := 1/100\<rparr>\<rparr>)
        (order_new 1 Sell Limit 10 (101/2)))))) = 101/2 - 101/200"
proof -
  have f: "dataFeeds S4_broker (o_data (order_new 1 Buy Limit 10 pr)) = Some (S4_bar 50)" for pr
    by (simp add: S4_broker_def order_new_def)
  have f': "dataFeeds (S4_broker\<lparr>slip := no_slip\<lparr>perc := 1/100\<rparr>\<rparr>)
               (o_data (order_new 1 Sell Limit 10 (101/2))) = Some (S4_bar 50)"
    by (simp add: S4_broker_def order_new_def)
  have t: "o_type (order_new 1 sd Limit 10 pr) = Limit" for sd pr
    by (simp add: order_new_def)
  show ?thesis
    using C2_limit_order[OF f t, of "99/2"] C2_limit_order[OF f t, of 48]
          C2_limit_order[OF f' t]
    by (simp add: S4_broker_def order_new_def S4_bar_def no_slip_def isBuy_def Let_def
          tryExecute_def tryExecute_match_def applySlippage_def executeOrder_def)
qed

text \<open>C7 at two inputs. \<^verbatim>\<open>Position::update\<close> on a long position of 10 at 100 with an
  execution of -15 at 110 flips the position to -5 and keeps the average 100, where the
  broker's own position update resets it to 110. The broker's update for a buy of 10 at 90
  that exactly closes a short position of 10 leaves the average at 90, where a sell that
  closes a long position leaves 0.\<close>

theorem C7_position_flip:
  "Position_update \<lparr>p_size = 10, p_price = 100\<rparr> (- 15) 110 = \<lparr>p_size = - 5, p_price = 100\<rparr>
   \<and> executeOrder_position \<lparr>p_size = 10, p_price = 100\<rparr> False 110 15 = \<lparr>p_size = - 5, p_price = 110\<rparr>
   \<and> executeOrder_position \<lparr>p_size = - 10, p_price = 100\<rparr> True 90 10 = \<lparr>p_size = 0, p_price = 90\<rparr>
   \<and> executeOrder_position \<lparr>p_size = 10, p_price = 100\<rparr> False 110 10 = \<lparr>p_size = 0, p_price = 0\<rparr>"
  by (simp add: Position_update_def executeOrder_position_def)

text \<open>C8 on scenario S4: a market buy of 100 filled at 50, then a market sell of 100 filled at
  55, with a commission of 0.001 of the value. The closing trade recorded by
  \<^verbatim>\<open>Broker::executeOrder\<close> has a gross P&L of 5500, because the position's average price is
  already 0 when it is read, and carries the commission of the closing fill only.
  \<^verbatim>\<open>Trade::close\<close> on the same round trip gives 500 and 489.5.\<close>

theorem C8_broker_closed_trade:
  "position_of S4_after_buy ''data'' = \<lparr>p_size = 100, p_price = 50\<rparr>
   \<and> position_of S4_after_sell ''data'' = \<lparr>p_size = 0, p_price = 0\<rparr>
   \<and> \<not> t_isOpen (last (trades S4_after_sell))
   \<and> t_pnl (last (trades S4_after_sell)) = 5500
   \<and> t_commission (last (trades S4_after_sell)) = 11 / 2
   \<and> t_pnlComm (last (trades S4_after_sell)) = 5500 - 11 / 2
   \<and> t_pnl (Trade_close (Trade_new\<lparr>t_priceOpen := 50, t_size := 100, t_commission := 5\<rparr>) 1 55 (11 / 2)) = 500
   \<and> t_pnlComm (Trade_close (Trade_new\<lparr>t_priceOpen := 50, t_size := 100, t_commission := 5\<rparr>) 1 55 (11 / 2)) = 500 - 21 / 2"
  by code_simp

section \<open>Parameter grid and optimisation run\<close>

lemma fold_addParam:
  "paramNames (fold (\<lambda>(name, vals) g. addParam g name vals) decls g0) = paramNames g0 @ map fst decls
   \<and> paramValues (fold (\<lambda>(name, vals) g. addParam g name vals) decls g0) = paramValues g0 @ map snd decls"
  by (induction decls arbitrary: g0) (auto simp: addParam_def split: prod.splits)

lemma grid_of_names [simp]: "paramNames (grid_of decls) = map fst decls"
  and grid_of_values [simp]: "paramValues (grid_of decls) = map snd decls"
  using fold_addParam[of decls ParameterGrid_new] by (simp_all add: grid_of_def ParameterGrid_new_def)

lemma fold_total:
  "fold (\<lambda>vals total. total * of_nat (length vals)) vss (a :: 64 word)
     = a * of_nat (prod_list (map length vss))"
  by (induction vss arbitrary: a) (auto simp: mult.assoc)

lemma totalCombinations_prod:
  "unat (totalCombinations g) = prod_list (map length (paramValues g)) mod 2 ^ 64"
  by (simp add: totalCombinations_def fold_total unat_of_nat)





lemma dig_length [simp]: "length (dig rk i) = length rk"
  by (induction rk arbitrary: i) auto



















text \<open>With 64 parameters of two values each the product \<open>2^64\<close> wraps to 0 and no parameter
  set is generated.\<close>

lemma generate_wraps:
  "unat (totalCombinations (grid_of wide_decls)) = 0 \<and> length (generate (grid_of wide_decls)) = 0"
proof -
  have v: "map length (paramValues (grid_of wide_decls)) = replicate 64 2"
    by (simp add: wide_decls_def comp_def map_replicate_const)
  have p: "prod_list (replicate 64 (2::nat)) = 2 ^ 64"
    by (simp only: prod_list_replicate)
  have t: "unat (totalCombinations (grid_of wide_decls)) = 0"
    by (simp only: totalCombinations_prod v p mod_self)
  then show ?thesis
    by (simp add: generate_def totalCombinations_def)
qed

end
